theory Spec2Isabelle
  imports Complex_Main
begin

section \<open>Values of the program\<close>

text \<open>
  The bot of \<^verbatim>\<open>index.js\<close> resolves a Roblox user name to an id, fetches three
  facts about the account through a caching, rate-limit aware GET helper, and renders a
  pass/fail embed. The model keeps what the code reads and writes: the cache, the remote
  calls and the timer waits. Console output has no influence on control flow and is left out.
\<close>

text \<open>
  A thrown or rejected JavaScript error. The code reads two things of it:
  \<^verbatim>\<open>err.response.status\<close> (set by axios when the server answered; \<open>None\<close> when there
  is no response, as for a network failure or a plain \<^verbatim>\<open>new Error(msg)\<close>) and
  \<^verbatim>\<open>err.message\<close>.
\<close>

datatype js_error = JsError (response_status: "nat option") (message: string)

text \<open>\<^verbatim>\<open>err.response && err.response.status === 429\<close>\<close>

definition rate_limited :: "js_error \<Rightarrow> bool" where
  "rate_limited err = (response_status err = Some 429)"

text \<open>An answer of the remote service, a latency and an outcome, that signals the rate limit.\<close>

fun rejects_429 :: "nat \<times> (js_error + 'a) \<Rightarrow> bool" where
  "rejects_429 (_, Inl err) = rate_limited err"
| "rejects_429 (_, Inr _) = False"

text \<open>
  The numbers the program computes with are integers (array lengths, a ceiling) or
  \<open>NaN\<close>, which arises from an invalid date. A comparison with \<open>NaN\<close> is false.
\<close>

datatype jsnum = NaN | Num int

fun js_ge :: "jsnum \<Rightarrow> int \<Rightarrow> bool" where
  "js_ge NaN t = False"
| "js_ge (Num n) t = (t \<le> n)"

text \<open>
  The payload \<^verbatim>\<open>res.data\<close> of a GET response has one of the two shapes the endpoints
  return: the user object, of which the code reads \<^verbatim>\<open>name\<close> and \<^verbatim>\<open>created\<close>
  (kept as the time value in milliseconds of \<^verbatim>\<open>new Date(created)\<close>, \<open>NaN\<close> for an
  invalid date), or an object whose \<^verbatim>\<open>data\<close> is an array (friends, group roles), of
  which the code reads the length.
\<close>

datatype body = UserBody string jsnum | ListBody "int list"

text \<open>
  The payload of the user name lookup: \<^verbatim>\<open>res.data.data\<close>, \<open>None\<close> when it is
  missing or otherwise falsy, else the array of the \<^verbatim>\<open>id\<close>s of its entries.
\<close>

type_synonym lookup_body = "int list option"

subsection \<open>Template literals\<close>

definition digit :: "nat \<Rightarrow> char" where
  "digit d = ''0123456789'' ! d"

fun show_nat :: "nat \<Rightarrow> string" where
  "show_nat n = (if n < 10 then [digit n] else show_nat (n div 10) @ [digit (n mod 10)])"

declare show_nat.simps [simp del]

definition show_int :: "int \<Rightarrow> string" where
  "show_int i = (if i < 0 then ''-'' @ show_nat (nat (- i)) else show_nat (nat i))"

definition dquote :: char where
  "dquote = CHR 0x22"

section \<open>The world: cache, remote service, timer\<close>

text \<open>
  An event is a remote call or a timer wait, each with its duration in milliseconds.
  The trace of the world lists them; the cache is the global \<^verbatim>\<open>Map\<close> of line 31.
\<close>

datatype event = Get string nat | Post string nat | Sleep nat

record world =
  cache :: "string \<rightharpoonup> body"
  trace :: "event list"

text \<open>
  The remote service is an oracle: the answer to the \<open>k\<close>-th GET of a URL, and to the
  \<open>k\<close>-th lookup of a user name (counted from 0), is a latency and either the error the
  promise rejects with or the payload.
\<close>

record env =
  get_answer :: "string \<Rightarrow> nat \<Rightarrow> nat \<times> (js_error + body)"
  post_answer :: "string \<Rightarrow> nat \<Rightarrow> nat \<times> (js_error + lookup_body)"

fun is_get :: "string \<Rightarrow> event \<Rightarrow> bool" where
  "is_get u (Get v _) = (u = v)"
| "is_get u _ = False"

fun is_post :: "string \<Rightarrow> event \<Rightarrow> bool" where
  "is_post u (Post v _) = (u = v)"
| "is_post u _ = False"

definition gets :: "world \<Rightarrow> string \<Rightarrow> nat" where
  "gets w url = length (filter (is_get url) (trace w))"

definition posts :: "world \<Rightarrow> string \<Rightarrow> nat" where
  "posts w username = length (filter (is_post username) (trace w))"

text \<open>\<^verbatim>\<open>await axios.get(url)\<close>\<close>

definition axios_get :: "env \<Rightarrow> string \<Rightarrow> world \<Rightarrow> (js_error + body) \<times> world" where
  "axios_get e url w =
     (case get_answer e url (gets w url) of
        (latency, outcome) \<Rightarrow> (outcome, w\<lparr>trace := trace w @ [Get url latency]\<rparr>))"

text \<open>
  \<^verbatim>\<open>await axios.post('https://users.roblox.com/v1/usernames/users', {usernames: [username]})\<close>
\<close>

definition axios_post :: "env \<Rightarrow> string \<Rightarrow> world \<Rightarrow> (js_error + lookup_body) \<times> world" where
  "axios_post e username w =
     (case post_answer e username (posts w username) of
        (latency, outcome) \<Rightarrow> (outcome, w\<lparr>trace := trace w @ [Post username latency]\<rparr>))"

text \<open>\<^verbatim>\<open>await new Promise(r => setTimeout(r, delay))\<close>\<close>

definition sleep :: "nat \<Rightarrow> world \<Rightarrow> world" where
  "sleep ms w = w\<lparr>trace := trace w @ [Sleep ms]\<rparr>"

section \<open>safeAxiosGet\<close>

text \<open>
  The \<^verbatim>\<open>for\<close> loop of lines 35 to 52 from iteration \<open>i\<close> on, and the
  \<^verbatim>\<open>throw\<close> of line 53 behind it. The cache is looked up in every iteration.
\<close>

function safeAxiosGet_loop ::
  "env \<Rightarrow> string \<Rightarrow> nat \<Rightarrow> nat \<Rightarrow> nat \<Rightarrow> world \<Rightarrow> (js_error + body) \<times> world" where
  "safeAxiosGet_loop e url retries delay i w =
     (if i < retries then
        (case cache w url of
           Some stored \<Rightarrow> (Inr stored, w)
         | None \<Rightarrow>
            (case axios_get e url w of
               (Inr response, w1) \<Rightarrow> (Inr response, w1\<lparr>cache := (cache w1)(url \<mapsto> response)\<rparr>)
             | (Inl err, w1) \<Rightarrow>
                 if rate_limited err
                 then safeAxiosGet_loop e url retries delay (Suc i) (sleep delay w1)
                 else (Inl err, w1)))
      else (Inl (JsError None (''Failed after '' @ show_nat retries @ '' retries for URL: '' @ url)), w))"
  by pat_completeness auto
termination
  by (relation "measure (\<lambda>(e, url, retries, delay, i, w). retries - i)") auto

declare safeAxiosGet_loop.simps [simp del]

definition safeAxiosGet ::
  "env \<Rightarrow> string \<Rightarrow> nat \<Rightarrow> nat \<Rightarrow> world \<Rightarrow> (js_error + body) \<times> world" where
  "safeAxiosGet e url retries delay w = safeAxiosGet_loop e url retries delay 0 w"

text \<open>The defaults of the parameters: \<^verbatim>\<open>retries = 3, delay = 3000\<close>.\<close>

definition default_retries :: nat where
  "default_retries = 3"

definition default_delay :: nat where
  "default_delay = 3000"

section \<open>The Roblox API functions\<close>

text \<open>
  The \<^verbatim>\<open>try\<close> block of \<^verbatim>\<open>getUserId\<close> (lines 61 to 69): the lookup, the check for
  an empty result, and the id of the first entry.
\<close>

definition not_found_error :: "string \<Rightarrow> js_error" where
  "not_found_error username = JsError None (''User '' @ [dquote] @ username @ [dquote] @ '' not found'')"

definition getUserId_try :: "env \<Rightarrow> string \<Rightarrow> world \<Rightarrow> (js_error + int) \<times> world" where
  "getUserId_try e username w =
     (case axios_post e username w of
        (Inl err, w1) \<Rightarrow> (Inl err, w1)
      | (Inr None, w1) \<Rightarrow> (Inl (not_found_error username), w1)
      | (Inr (Some []), w1) \<Rightarrow> (Inl (not_found_error username), w1)
      | (Inr (Some (first # _)), w1) \<Rightarrow> (Inr first, w1))"

text \<open>The error thrown at line 76.\<close>

definition lookup_failed :: "string \<Rightarrow> js_error \<Rightarrow> js_error" where
  "lookup_failed username err =
     JsError None (''Failed to get user ID for '' @ [dquote] @ username @ [dquote] @ '': '' @ message err)"

text \<open>
  \<^verbatim>\<open>getUserId\<close> with its \<^verbatim>\<open>catch\<close> block (lines 70 to 77). The retry is a call of
  the function itself, so the function may not return: \<open>None\<close> is that case.
\<close>

partial_function (option) getUserId ::
  "env \<Rightarrow> string \<Rightarrow> world \<Rightarrow> ((js_error + int) \<times> world) option" where
  "getUserId e username w =
     (case getUserId_try e username w of
        (Inr userId, w1) \<Rightarrow> Some (Inr userId, w1)
      | (Inl err, w1) \<Rightarrow>
          if rate_limited err
          then getUserId e username (sleep 3000 w1)
          else Some (Inl (lookup_failed username err), w1))"

definition type_error :: js_error where
  "type_error = JsError None ''Cannot read properties of undefined''"

definition getUserDetails :: "env \<Rightarrow> int \<Rightarrow> world \<Rightarrow> (js_error + body) \<times> world" where
  "getUserDetails e userId w =
     (case safeAxiosGet e (''https://users.roblox.com/v1/users/'' @ show_int userId)
             default_retries default_delay w of
        (Inl err, w1) \<Rightarrow> (Inl err, w1)
      | (Inr res, w1) \<Rightarrow> (Inr res, w1))"

text \<open>
  \<^verbatim>\<open>res.data.data.length\<close>: on a payload without \<^verbatim>\<open>data\<close> the read of
  \<^verbatim>\<open>length\<close> throws a TypeError.
\<close>

definition data_length :: "body \<Rightarrow> js_error + int" where
  "data_length res = (case res of ListBody xs \<Rightarrow> Inr (int (length xs)) | UserBody _ _ \<Rightarrow> Inl type_error)"

definition getFriendsCount :: "env \<Rightarrow> int \<Rightarrow> world \<Rightarrow> (js_error + int) \<times> world" where
  "getFriendsCount e userId w =
     (case safeAxiosGet e (''https://friends.roblox.com/v1/users/'' @ show_int userId @ ''/friends'')
             default_retries default_delay w of
        (Inl err, w1) \<Rightarrow> (Inl err, w1)
      | (Inr res, w1) \<Rightarrow> (data_length res, w1))"

definition getGroupsCount :: "env \<Rightarrow> int \<Rightarrow> world \<Rightarrow> (js_error + int) \<times> world" where
  "getGroupsCount e userId w =
     (case safeAxiosGet e (''https://groups.roblox.com/v1/users/'' @ show_int userId @ ''/groups/roles'')
             default_retries default_delay w of
        (Inl err, w1) \<Rightarrow> (Inl err, w1)
      | (Inr res, w1) \<Rightarrow> (data_length res, w1))"

text \<open>
  \<^verbatim>\<open>calculateAccountAge\<close>: \<open>now\<close> is the reading of the clock by \<^verbatim>\<open>new Date()\<close>,
  \<open>created\<close> the time value of \<^verbatim>\<open>new Date(createdDate)\<close>, both in milliseconds. The
  difference of two time values and its quotient are taken exactly; the doubles of the
  code agree with that as long as the two dates are less than \<open>2 ^ 53\<close> milliseconds
  (some 285000 years) apart: the difference is then exact, and a quotient that is not
  whole is at least \<open>1 / 86400000\<close> away from the next whole number, more than the
  rounding of the division can bridge.
\<close>

fun calculateAccountAge :: "int \<Rightarrow> jsnum \<Rightarrow> jsnum" where
  "calculateAccountAge now NaN = NaN"
| "calculateAccountAge now (Num created) =
     Num \<lceil>real_of_int \<bar>now - created\<bar> / real_of_int (1000 * 60 * 60 * 24)\<rceil>"

section \<open>The embed\<close>

text \<open>
  The value of a field of the embed: for a criterion the mark, the measured number, the
  unit and the minimum of \<^verbatim>\<open>`${met ? ok : no} ${n} days (min ${min})`\<close>; for the
  overall status the verdict.
\<close>

datatype field_value = Criterion bool jsnum string int | Status bool

record embed =
  title :: string
  color :: nat
  addFields :: "(string \<times> field_value) list"
  footer :: string

text \<open>
  \<^verbatim>\<open>EmbedBuilder\<close> validates what it is given, and \<^verbatim>\<open>setTitle\<close> throws when the title
  is longer than 256 characters. The error is the validation library's; the code reads
  its message only. The other checks of the builder (lengths of field names, field values
  and footer, range of the colour) are met by everything this function passes: constants,
  and texts built from a number.
\<close>

definition title_too_long :: js_error where
  "title_too_long = JsError None ''Invalid string length''"

definition setTitle :: "string \<Rightarrow> js_error + string" where
  "setTitle t = (if 256 < length t then Inl title_too_long else Inr t)"

definition createResultsEmbed :: "string \<Rightarrow> jsnum \<Rightarrow> jsnum \<Rightarrow> jsnum \<Rightarrow> js_error + embed" where
  "createResultsEmbed username accountAge friendsCount groupsCount =
     (let minAge = 90;
          minFriends = 20;
          minGroups = 30;
          ageMet = js_ge accountAge minAge;
          friendsMet = js_ge friendsCount minFriends;
          groupsMet = js_ge groupsCount minGroups;
          passed = (ageMet \<and> friendsMet \<and> groupsMet)
      in case setTitle (''Background Check - '' @ username) of
           Inl err \<Rightarrow> Inl err
         | Inr checked \<Rightarrow>
             Inr \<lparr> title = checked,
                   color = (if passed then 0x00FF00 else 0xFF0000),
                   addFields =
                     [(''Account Age'', Criterion ageMet accountAge ''days'' minAge),
                      (''Friends'', Criterion friendsMet friendsCount ''friends'' minFriends),
                      (''Groups'', Criterion groupsMet groupsCount ''groups'' minGroups),
                      (''Overall Status'', Status passed)],
                   footer = ''Background Check System'' \<rparr>)"

text \<open>The verdicts an embed shows.\<close>

fun criterion_verdicts :: "(string \<times> field_value) list \<Rightarrow> bool list" where
  "criterion_verdicts [] = []"
| "criterion_verdicts ((_, Criterion met _ _ _) # fs) = met # criterion_verdicts fs"
| "criterion_verdicts ((_, Status _) # fs) = criterion_verdicts fs"

fun overall_verdicts :: "(string \<times> field_value) list \<Rightarrow> bool list" where
  "overall_verdicts [] = []"
| "overall_verdicts ((_, Criterion _ _ _ _) # fs) = overall_verdicts fs"
| "overall_verdicts ((_, Status passed) # fs) = passed # overall_verdicts fs"

section \<open>The command handler\<close>

text \<open>
  \<^verbatim>\<open>Promise.all\<close> over the three calls of lines 168 to 172. The calls are started
  together and touch three different URLs; the model runs them one after the other on
  the shared world and keeps, for each, the time it took (the durations of the events
  it added). The promise is fulfilled with the three values when all three calls are, and
  rejected with the error of the call that fails earliest otherwise (the one named first
  when two fail at the same instant). Nothing cancels the calls still in flight at that
  moment, so the world returned is the one after all three.
\<close>

fun elapsed :: "event list \<Rightarrow> nat" where
  "elapsed [] = 0"
| "elapsed (Get _ ms # es) = ms + elapsed es"
| "elapsed (Post _ ms # es) = ms + elapsed es"
| "elapsed (Sleep ms # es) = ms + elapsed es"

definition took :: "world \<Rightarrow> world \<Rightarrow> nat" where
  "took w w1 = elapsed (drop (length (trace w)) (trace w1))"

fun rejection :: "nat \<Rightarrow> js_error + 'a \<Rightarrow> (nat \<times> js_error) list" where
  "rejection t (Inl err) = [(t, err)]"
| "rejection t (Inr _) = []"

fun earliest :: "nat \<times> js_error \<Rightarrow> (nat \<times> js_error) list \<Rightarrow> nat \<times> js_error" where
  "earliest x [] = x"
| "earliest x (y # ys) = earliest (if fst y < fst x then y else x) ys"

definition promise_all ::
  "nat \<times> (js_error + 'a) \<Rightarrow> nat \<times> (js_error + 'b) \<Rightarrow> nat \<times> (js_error + 'c) \<Rightarrow> js_error + 'a \<times> 'b \<times> 'c" where
  "promise_all p1 p2 p3 =
     (case rejection (fst p1) (snd p1) @ rejection (fst p2) (snd p2) @ rejection (fst p3) (snd p3) of
        x # xs \<Rightarrow> Inl (snd (earliest x xs))
      | [] \<Rightarrow>
         (case snd p1 of Inl err \<Rightarrow> Inl err | Inr v1 \<Rightarrow>
           (case snd p2 of Inl err \<Rightarrow> Inl err | Inr v2 \<Rightarrow>
             (case snd p3 of Inl err \<Rightarrow> Inl err | Inr v3 \<Rightarrow> Inr (v1, v2, v3)))))"

definition aggregate :: "env \<Rightarrow> int \<Rightarrow> world \<Rightarrow> (js_error + body \<times> int \<times> int) \<times> world" where
  "aggregate e userId w =
     (case getUserDetails e userId w of (r1, w1) \<Rightarrow>
      case getFriendsCount e userId w1 of (r2, w2) \<Rightarrow>
      case getGroupsCount e userId w2 of (r3, w3) \<Rightarrow>
        (promise_all (took w w1, r1) (took w1 w2, r2) (took w2 w3, r3), w3))"

text \<open>
  \<^verbatim>\<open>userDetails.name\<close> as the template of the title prints it, and the time value of
  \<^verbatim>\<open>new Date(userDetails.created)\<close>; both are \<^verbatim>\<open>undefined\<close> on the other shape.
\<close>

fun details_name :: "body \<Rightarrow> string" where
  "details_name (UserBody name _) = name"
| "details_name (ListBody _) = ''undefined''"

fun details_created :: "body \<Rightarrow> jsnum" where
  "details_created (UserBody _ created) = created"
| "details_created (ListBody _) = NaN"

record interaction =
  isChatInputCommand :: bool
  commandName :: string
  username_option :: string

text \<open>The interaction of the slash command \<^verbatim>\<open>/bgc username\<close>.\<close>

definition bgc :: "string \<Rightarrow> interaction" where
  "bgc username = \<lparr> isChatInputCommand = True, commandName = ''bgc'', username_option = username \<rparr>"

datatype reply = EmbedReply embed | TextReply string

text \<open>
  The handler of \<^verbatim>\<open>interactionCreate\<close> (lines 155 to 184); \<open>now\<close> is what the clock
  reads when the account age is computed. The result is the reply edited into the
  interaction, if any, and the world afterwards; \<open>None\<close> when the handler does not return.
  An error thrown while the embed is built is caught like every other error of the
  \<^verbatim>\<open>try\<close> block. The calls of Discord (\<^verbatim>\<open>deferReply\<close>, \<^verbatim>\<open>editReply\<close>) are taken to succeed.
\<close>

definition interactionCreate ::
  "env \<Rightarrow> int \<Rightarrow> interaction \<Rightarrow> world \<Rightarrow> (reply option \<times> world) option" where
  "interactionCreate e now interaction w =
     (if \<not> isChatInputCommand interaction then Some (None, w)
      else if commandName interaction \<noteq> ''bgc'' then Some (None, w)
      else
        (case getUserId e (username_option interaction) w of
           None \<Rightarrow> None
         | Some (Inl err, w1) \<Rightarrow> Some (Some (TextReply (''Error: '' @ message err)), w1)
         | Some (Inr userId, w1) \<Rightarrow>
            (case aggregate e userId w1 of
               (Inl err, w2) \<Rightarrow> Some (Some (TextReply (''Error: '' @ message err)), w2)
             | (Inr (userDetails, friendsCount, groupsCount), w2) \<Rightarrow>
                 (let accountAge = calculateAccountAge now (details_created userDetails)
                  in case createResultsEmbed (details_name userDetails) accountAge
                            (Num friendsCount) (Num groupsCount) of
                       Inl err \<Rightarrow> Some (Some (TextReply (''Error: '' @ message err)), w2)
                     | Inr built \<Rightarrow> Some (Some (EmbedReply built), w2)))))"

section \<open>Example services and worlds\<close>

text \<open>Concrete remote services and worlds on which the theorems below are run.\<close>

definition too_many_requests :: js_error where
  "too_many_requests = JsError (Some 429) ''Request failed with status code 429''"

definition server_error :: js_error where
  "server_error = JsError (Some 500) ''Request failed with status code 500''"

definition world_empty :: world where
  "world_empty = \<lparr> cache = Map.empty, trace = [] \<rparr>"

definition env_always_429 :: env where
  "env_always_429 =
     \<lparr> get_answer = (\<lambda>url k. (120, Inl too_many_requests)),
       post_answer = (\<lambda>username k. (80, Inl too_many_requests)) \<rparr>"

definition alice_details :: body where
  "alice_details = UserBody ''alice'' (Num 1600000000000)"

definition env_healthy :: env where
  "env_healthy =
     \<lparr> get_answer = (\<lambda>url k.
         if url = ''https://users.roblox.com/v1/users/7'' then (100, Inr alice_details)
         else if url = ''https://friends.roblox.com/v1/users/7/friends'' then (150, Inr (ListBody [1 .. 25]))
         else (200, Inr (ListBody [1 .. 35]))),
       post_answer = (\<lambda>username k. (80, Inr (Some [7]))) \<rparr>"

definition env_broken :: env where
  "env_broken =
     \<lparr> get_answer = (\<lambda>url k. (90, Inl server_error)),
       post_answer = (\<lambda>username k. (80, Inl server_error)) \<rparr>"

definition env_twice_limited :: env where
  "env_twice_limited =
     env_healthy\<lparr>post_answer :=
       (\<lambda>username k. (80, if k < 2 then Inl too_many_requests else Inr (Some [7])))\<rparr>"

definition env_no_user :: env where
  "env_no_user = env_healthy\<lparr>post_answer := (\<lambda>username k. (80, Inr (Some [])))\<rparr>"

definition env_echo :: env where
  "env_echo = env_healthy\<lparr>post_answer := (\<lambda>username k. (80, Inl (not_found_error username)))\<rparr>"

definition env_friends_down :: env where
  "env_friends_down =
     env_healthy\<lparr>get_answer :=
       (\<lambda>url k. if url = ''https://friends.roblox.com/v1/users/7/friends'' then (150, Inl server_error)
                else get_answer env_healthy url k)\<rparr>"

section \<open>The steps of the retry loop\<close>

lemma loop_hit:
  "i < retries \<Longrightarrow> cache w url = Some stored \<Longrightarrow> safeAxiosGet_loop e url retries delay i w = (Inr stored, w)"
  by (simp add: safeAxiosGet_loop.simps)

lemma loop_exhausted:
  "\<not> i < retries \<Longrightarrow> safeAxiosGet_loop e url retries delay i w =
     (Inl (JsError None (''Failed after '' @ show_nat retries @ '' retries for URL: '' @ url)), w)"
  by (simp add: safeAxiosGet_loop.simps)

lemma loop_success:
  "i < retries \<Longrightarrow> cache w url = None \<Longrightarrow> get_answer e url (gets w url) = (latency, Inr response) \<Longrightarrow>
   safeAxiosGet_loop e url retries delay i w =
     (Inr response, w\<lparr>trace := trace w @ [Get url latency], cache := (cache w)(url \<mapsto> response)\<rparr>)"
  by (simp add: safeAxiosGet_loop.simps axios_get_def)

lemma loop_fail_fast:
  "i < retries \<Longrightarrow> cache w url = None \<Longrightarrow> get_answer e url (gets w url) = (latency, Inl err) \<Longrightarrow>
   \<not> rate_limited err \<Longrightarrow>
   safeAxiosGet_loop e url retries delay i w = (Inl err, w\<lparr>trace := trace w @ [Get url latency]\<rparr>)"
  by (simp add: safeAxiosGet_loop.simps axios_get_def)

lemma loop_rate_limited:
  "i < retries \<Longrightarrow> cache w url = None \<Longrightarrow> get_answer e url (gets w url) = (latency, Inl err) \<Longrightarrow>
   rate_limited err \<Longrightarrow>
   safeAxiosGet_loop e url retries delay i w =
     safeAxiosGet_loop e url retries delay (Suc i) (w\<lparr>trace := trace w @ [Get url latency, Sleep delay]\<rparr>)"
  by (simp add: safeAxiosGet_loop.simps [of e url retries delay i] axios_get_def sleep_def)

lemma rejects_429_D:
  "rejects_429 answer \<Longrightarrow> \<exists>err. answer = (fst answer, Inl err) \<and> rate_limited err"
  by (cases answer; cases "snd answer") auto

lemma show_nat_3: "show_nat 3 = ''3''"
  by (simp add: show_nat.simps digit_def)

lemma loop_cache:
  "safeAxiosGet_loop e url retries delay i w = (res, w') \<Longrightarrow>
   (case res of Inl err \<Rightarrow> cache w' = cache w | Inr r \<Rightarrow> cache w' = (cache w)(url \<mapsto> r))"
proof (induction e url retries delay i w rule: safeAxiosGet_loop.induct)
  case (1 e url retries delay i w)
  show ?case
  proof (cases "i < retries")
    case False
    with "1.prems" show ?thesis by (auto simp: loop_exhausted)
  next
    case True
    show ?thesis
    proof (cases "cache w url")
      case (Some stored)
      with True "1.prems" show ?thesis by (auto simp: loop_hit map_upd_triv)
    next
      case None
      obtain latency outcome where ans: "get_answer e url (gets w url) = (latency, outcome)"
        by (cases "get_answer e url (gets w url)")
      show ?thesis
      proof (cases outcome)
        case (Inr response)
        with True None ans "1.prems" show ?thesis by (auto simp: loop_success)
      next
        case (Inl err)
        show ?thesis
        proof (cases "rate_limited err")
          case False
          with True None ans Inl "1.prems" show ?thesis by (auto simp: loop_fail_fast)
        next
          case rl: True
          have ax: "axios_get e url w = (Inl err, w\<lparr>trace := trace w @ [Get url latency]\<rparr>)"
            using ans Inl by (simp add: axios_get_def)
          have step: "safeAxiosGet_loop e url retries delay (Suc i)
                        (sleep delay (w\<lparr>trace := trace w @ [Get url latency]\<rparr>)) = (res, w')"
            using "1.prems" loop_rate_limited [OF True None ans [unfolded Inl] rl, of delay]
            by (simp add: sleep_def)
          have "case res of Inl err \<Rightarrow> cache w' = cache (sleep delay (w\<lparr>trace := trace w @ [Get url latency]\<rparr>))
                  | Inr r \<Rightarrow> cache w' = (cache (sleep delay (w\<lparr>trace := trace w @ [Get url latency]\<rparr>)))(url \<mapsto> r)"
            using "1.IH" [OF True None ax [symmetric] refl rl step] .
          then show ?thesis by (cases res) (simp_all add: sleep_def)
        qed
      qed
    qed
  qed
qed

lemma loop_provenance:
  "safeAxiosGet_loop e url retries delay i w = (Inr r, w') \<Longrightarrow>
   cache w url = Some r \<or> (\<exists>k latency. get_answer e url k = (latency, Inr r))"
proof (induction e url retries delay i w rule: safeAxiosGet_loop.induct)
  case (1 e url retries delay i w)
  show ?case
  proof (cases "i < retries")
    case False
    with "1.prems" show ?thesis by (simp add: loop_exhausted)
  next
    case True
    show ?thesis
    proof (cases "cache w url")
      case (Some stored)
      with True "1.prems" show ?thesis by (simp add: loop_hit)
    next
      case None
      obtain latency outcome where ans: "get_answer e url (gets w url) = (latency, outcome)"
        by (cases "get_answer e url (gets w url)")
      show ?thesis
      proof (cases outcome)
        case (Inr response)
        with True None ans "1.prems" have "response = r" by (simp add: loop_success)
        with ans Inr show ?thesis by blast
      next
        case (Inl err)
        show ?thesis
        proof (cases "rate_limited err")
          case False
          with True None ans Inl "1.prems" show ?thesis by (simp add: loop_fail_fast)
        next
          case rl: True
          have ax: "axios_get e url w = (Inl err, w\<lparr>trace := trace w @ [Get url latency]\<rparr>)"
            using ans Inl by (simp add: axios_get_def)
          have step: "safeAxiosGet_loop e url retries delay (Suc i)
                        (sleep delay (w\<lparr>trace := trace w @ [Get url latency]\<rparr>)) = (Inr r, w')"
            using "1.prems" loop_rate_limited [OF True None ans [unfolded Inl] rl, of delay]
            by (simp add: sleep_def)
          have "cache (sleep delay (w\<lparr>trace := trace w @ [Get url latency]\<rparr>)) url = Some r
                \<or> (\<exists>k latency. get_answer e url k = (latency, Inr r))"
            using "1.IH" [OF True None ax [symmetric] refl rl step] .
          with None show ?thesis by (simp add: sleep_def)
        qed
      qed
    qed
  qed
qed

section \<open>Claims about safeAxiosGet\<close>

text \<open>
  C2. With the default configuration (3 attempts, 3000 ms), a call that misses the cache
  and whose endpoint answers 429 to each of its three requests fails with the error
  \<^verbatim>\<open>Failed after 3 retries for URL: <url>\<close>, which names the request key, after
  exactly three requests, with a wait of 3000 ms after each of them, so between any two
  consecutive requests.
\<close>
theorem safeAxiosGet_retries_exhausted:
  assumes miss: "cache w url = None"
    and first: "rejects_429 (get_answer e url (gets w url))"
    and second: "rejects_429 (get_answer e url (gets w url + 1))"
    and third: "rejects_429 (get_answer e url (gets w url + 2))"
  shows "safeAxiosGet e url default_retries default_delay w =
     (Inl (JsError None (''Failed after 3 retries for URL: '' @ url)),
      w\<lparr>trace := trace w @
         [Get url (fst (get_answer e url (gets w url))), Sleep 3000,
          Get url (fst (get_answer e url (gets w url + 1))), Sleep 3000,
          Get url (fst (get_answer e url (gets w url + 2))), Sleep 3000]\<rparr>)"
proof -
  let ?l0 = "fst (get_answer e url (gets w url))"
  let ?l1 = "fst (get_answer e url (gets w url + 1))"
  let ?l2 = "fst (get_answer e url (gets w url + 2))"
  let ?w1 = "w\<lparr>trace := trace w @ [Get url ?l0, Sleep 3000]\<rparr>"
  let ?w2 = "?w1\<lparr>trace := trace ?w1 @ [Get url ?l1, Sleep 3000]\<rparr>"
  let ?w3 = "?w2\<lparr>trace := trace ?w2 @ [Get url ?l2, Sleep 3000]\<rparr>"
  from first obtain e0 where a0: "get_answer e url (gets w url) = (?l0, Inl e0)" and r0: "rate_limited e0"
    by (auto dest: rejects_429_D)
  from second obtain e1 where a1: "get_answer e url (gets w url + 1) = (?l1, Inl e1)" and r1: "rate_limited e1"
    by (auto dest: rejects_429_D)
  from third obtain e2 where a2: "get_answer e url (gets w url + 2) = (?l2, Inl e2)" and r2: "rate_limited e2"
    by (auto dest: rejects_429_D)
  have g1: "gets ?w1 url = gets w url + 1" by (simp add: gets_def)
  have g2: "gets ?w2 url = gets w url + 2" by (simp add: gets_def)
  have s0: "safeAxiosGet_loop e url 3 3000 0 w = safeAxiosGet_loop e url 3 3000 (Suc 0) ?w1"
    by (rule loop_rate_limited [OF _ miss a0 r0]) simp
  have s1: "safeAxiosGet_loop e url 3 3000 (Suc 0) ?w1 = safeAxiosGet_loop e url 3 3000 (Suc (Suc 0)) ?w2"
    by (rule loop_rate_limited [OF _ _ _ r1]) (use miss g1 a1 in simp_all)
  have s2: "safeAxiosGet_loop e url 3 3000 (Suc (Suc 0)) ?w2 = safeAxiosGet_loop e url 3 3000 (Suc (Suc (Suc 0))) ?w3"
    by (rule loop_rate_limited [OF _ _ _ r2]) (use miss g2 a2 in simp_all)
  have s3: "safeAxiosGet_loop e url 3 3000 (Suc (Suc (Suc 0))) ?w3 =
              (Inl (JsError None (''Failed after '' @ show_nat 3 @ '' retries for URL: '' @ url)), ?w3)"
    by (rule loop_exhausted) simp
  show ?thesis
    unfolding safeAxiosGet_def default_retries_def default_delay_def s0 s1 s2 s3
    by (simp add: show_nat_3)
qed

theorem safeAxiosGet_retries_exhausted_witness:
  "cache world_empty ''https://users.roblox.com/v1/users/1'' = None
   \<and> rejects_429 (get_answer env_always_429 ''https://users.roblox.com/v1/users/1''
                    (gets world_empty ''https://users.roblox.com/v1/users/1''))
   \<and> rejects_429 (get_answer env_always_429 ''https://users.roblox.com/v1/users/1''
                    (gets world_empty ''https://users.roblox.com/v1/users/1'' + 1))
   \<and> rejects_429 (get_answer env_always_429 ''https://users.roblox.com/v1/users/1''
                    (gets world_empty ''https://users.roblox.com/v1/users/1'' + 2))
   \<and> safeAxiosGet env_always_429 ''https://users.roblox.com/v1/users/1'' default_retries default_delay world_empty =
       (Inl (JsError None ''Failed after 3 retries for URL: https://users.roblox.com/v1/users/1''),
        \<lparr> cache = Map.empty,
          trace = [Get ''https://users.roblox.com/v1/users/1'' 120, Sleep 3000,
                   Get ''https://users.roblox.com/v1/users/1'' 120, Sleep 3000,
                   Get ''https://users.roblox.com/v1/users/1'' 120, Sleep 3000] \<rparr>)"
proof -
  have miss: "cache world_empty ''https://users.roblox.com/v1/users/1'' = None"
    by (simp add: world_empty_def)
  have limited: "rejects_429 (get_answer env_always_429 ''https://users.roblox.com/v1/users/1'' k)" for k
    by (simp add: env_always_429_def too_many_requests_def rate_limited_def)
  show ?thesis
    using miss limited safeAxiosGet_retries_exhausted [OF miss limited limited limited]
    by (simp add: world_empty_def env_always_429_def)
qed

text \<open>
  C3. Two calls in a row with the same key, the first of which misses the cache and gets
  a successful answer to its request: the first call stores and returns the response
  after one GET, the second call returns the stored response and leaves the world as it
  is, so that the key has been requested from the remote service exactly once.
\<close>
theorem safeAxiosGet_cache_idempotent:
  assumes miss: "cache w url = None"
    and attempts: "0 < retries" "0 < retries'"
    and success: "get_answer e url (gets w url) = (latency, Inr response)"
  shows "safeAxiosGet e url retries delay w =
           (Inr response, w\<lparr>trace := trace w @ [Get url latency], cache := (cache w)(url \<mapsto> response)\<rparr>)
         \<and> safeAxiosGet e url retries' delay'
              (w\<lparr>trace := trace w @ [Get url latency], cache := (cache w)(url \<mapsto> response)\<rparr>) =
           (Inr response, w\<lparr>trace := trace w @ [Get url latency], cache := (cache w)(url \<mapsto> response)\<rparr>)
         \<and> gets (w\<lparr>trace := trace w @ [Get url latency], cache := (cache w)(url \<mapsto> response)\<rparr>) url
             = gets w url + 1"
proof -
  let ?w1 = "w\<lparr>trace := trace w @ [Get url latency], cache := (cache w)(url \<mapsto> response)\<rparr>"
  have one: "safeAxiosGet e url retries delay w = (Inr response, ?w1)"
    unfolding safeAxiosGet_def using attempts(1) miss success by (rule loop_success)
  have "cache ?w1 url = Some response" by simp
  with attempts(2) have two: "safeAxiosGet e url retries' delay' ?w1 = (Inr response, ?w1)"
    unfolding safeAxiosGet_def by (rule loop_hit)
  have three: "gets ?w1 url = gets w url + 1" by (simp add: gets_def)
  from one two three show ?thesis by blast
qed

theorem safeAxiosGet_cache_idempotent_witness:
  "cache world_empty ''https://users.roblox.com/v1/users/7'' = None
   \<and> (0::nat) < 3
   \<and> get_answer env_healthy ''https://users.roblox.com/v1/users/7''
        (gets world_empty ''https://users.roblox.com/v1/users/7'') = (100, Inr alice_details)
   \<and> safeAxiosGet env_healthy ''https://users.roblox.com/v1/users/7'' 3 3000 world_empty =
        (Inr alice_details,
         \<lparr> cache = [''https://users.roblox.com/v1/users/7'' \<mapsto> alice_details],
           trace = [Get ''https://users.roblox.com/v1/users/7'' 100] \<rparr>)
   \<and> safeAxiosGet env_healthy ''https://users.roblox.com/v1/users/7'' 3 3000
        \<lparr> cache = [''https://users.roblox.com/v1/users/7'' \<mapsto> alice_details],
          trace = [Get ''https://users.roblox.com/v1/users/7'' 100] \<rparr> =
        (Inr alice_details,
         \<lparr> cache = [''https://users.roblox.com/v1/users/7'' \<mapsto> alice_details],
           trace = [Get ''https://users.roblox.com/v1/users/7'' 100] \<rparr>)"
proof -
  have miss: "cache world_empty ''https://users.roblox.com/v1/users/7'' = None"
    by (simp add: world_empty_def)
  have attempts: "(0::nat) < 3" by simp
  have success: "get_answer env_healthy ''https://users.roblox.com/v1/users/7''
        (gets world_empty ''https://users.roblox.com/v1/users/7'') = (100, Inr alice_details)"
    by (simp add: env_healthy_def)
  show ?thesis
    using miss success
      safeAxiosGet_cache_idempotent [OF miss attempts attempts success, of 3000 3000]
    by (simp add: world_empty_def)
qed

text \<open>
  C9. A request that is rejected with an error other than the rate-limit signal ends the
  call at once, in whichever iteration it happens and so in the first: the call returns
  that very error, and the GET is the last event, with no wait and no further request.
\<close>
theorem safeAxiosGet_fails_fast:
  assumes miss: "cache w url = None"
    and attempts: "i < retries"
    and failure: "get_answer e url (gets w url) = (latency, Inl err)"
    and other: "\<not> rate_limited err"
  shows "safeAxiosGet e url retries delay w = (Inl err, w\<lparr>trace := trace w @ [Get url latency]\<rparr>)
         \<and> safeAxiosGet_loop e url retries delay i w = (Inl err, w\<lparr>trace := trace w @ [Get url latency]\<rparr>)"
proof -
  from attempts have "0 < retries" by simp
  then have "safeAxiosGet_loop e url retries delay 0 w = (Inl err, w\<lparr>trace := trace w @ [Get url latency]\<rparr>)"
    using miss failure other by (rule loop_fail_fast)
  moreover have "safeAxiosGet_loop e url retries delay i w = (Inl err, w\<lparr>trace := trace w @ [Get url latency]\<rparr>)"
    using attempts miss failure other by (rule loop_fail_fast)
  ultimately show ?thesis by (simp add: safeAxiosGet_def)
qed

theorem safeAxiosGet_fails_fast_witness:
  "cache world_empty ''https://users.roblox.com/v1/users/7'' = None
   \<and> (0::nat) < 3
   \<and> get_answer env_broken ''https://users.roblox.com/v1/users/7''
        (gets world_empty ''https://users.roblox.com/v1/users/7'') = (90, Inl server_error)
   \<and> \<not> rate_limited server_error
   \<and> safeAxiosGet env_broken ''https://users.roblox.com/v1/users/7'' 3 3000 world_empty =
        (Inl server_error, \<lparr> cache = Map.empty, trace = [Get ''https://users.roblox.com/v1/users/7'' 90] \<rparr>)"
proof -
  have miss: "cache world_empty ''https://users.roblox.com/v1/users/7'' = None"
    by (simp add: world_empty_def)
  have attempts: "(0::nat) < 3" by simp
  have failure: "get_answer env_broken ''https://users.roblox.com/v1/users/7''
        (gets world_empty ''https://users.roblox.com/v1/users/7'') = (90, Inl server_error)"
    by (simp add: env_broken_def)
  have other: "\<not> rate_limited server_error"
    by (simp add: rate_limited_def server_error_def)
  show ?thesis
    using miss failure other safeAxiosGet_fails_fast [OF miss attempts failure other, of 3000]
    by (simp add: world_empty_def)
qed

text \<open>
  C10. The cache is written on success only. When the call fails, whether by the retries
  running out or by any other error, the cache is what it was; when it returns a
  response, the cache differs at most at the key, which is bound to that response, and
  the response was already stored under the key or is the payload of a successful answer.
\<close>
theorem safeAxiosGet_cache_written_on_success_only:
  "(case fst (safeAxiosGet e url retries delay w) of
      Inl err \<Rightarrow> cache (snd (safeAxiosGet e url retries delay w)) = cache w
    | Inr response \<Rightarrow>
        cache (snd (safeAxiosGet e url retries delay w)) = (cache w)(url \<mapsto> response)
        \<and> (cache w url = Some response \<or> (\<exists>k latency. get_answer e url k = (latency, Inr response))))"
proof (cases "fst (safeAxiosGet e url retries delay w)")
  case (Inl err)
  have "safeAxiosGet_loop e url retries delay 0 w = (Inl err, snd (safeAxiosGet e url retries delay w))"
    using Inl by (simp add: safeAxiosGet_def prod_eq_iff)
  from loop_cache [OF this] Inl show ?thesis by simp
next
  case (Inr response)
  have run: "safeAxiosGet_loop e url retries delay 0 w = (Inr response, snd (safeAxiosGet e url retries delay w))"
    using Inr by (simp add: safeAxiosGet_def prod_eq_iff)
  from loop_cache [OF run] loop_provenance [OF run] Inr show ?thesis by simp
qed

theorem safeAxiosGet_cache_written_on_success_only_witness:
  "cache (snd (safeAxiosGet env_always_429 ''https://users.roblox.com/v1/users/7'' 3 3000 world_empty)) = Map.empty
   \<and> cache (snd (safeAxiosGet env_broken ''https://users.roblox.com/v1/users/7'' 3 3000 world_empty)) = Map.empty"
proof -
  have a: "fst (safeAxiosGet env_always_429 ''https://users.roblox.com/v1/users/7'' 3 3000 world_empty)
            = Inl (JsError None ''Failed after 3 retries for URL: https://users.roblox.com/v1/users/7'')"
    by (simp add: safeAxiosGet_def safeAxiosGet_loop.simps axios_get_def gets_def sleep_def
        env_always_429_def too_many_requests_def rate_limited_def world_empty_def show_nat_3)
  have b: "fst (safeAxiosGet env_broken ''https://users.roblox.com/v1/users/7'' 3 3000 world_empty)
            = Inl server_error"
    by (simp add: safeAxiosGet_def safeAxiosGet_loop.simps axios_get_def gets_def sleep_def
        env_broken_def server_error_def rate_limited_def world_empty_def)
  have c: "cache (snd (safeAxiosGet env_always_429 ''https://users.roblox.com/v1/users/7'' 3 3000 world_empty))
            = cache world_empty"
    using safeAxiosGet_cache_written_on_success_only
            [of env_always_429 "''https://users.roblox.com/v1/users/7''" 3 3000 world_empty]
    by (simp add: a)
  have d: "cache (snd (safeAxiosGet env_broken ''https://users.roblox.com/v1/users/7'' 3 3000 world_empty))
            = cache world_empty"
    using safeAxiosGet_cache_written_on_success_only
            [of env_broken "''https://users.roblox.com/v1/users/7''" 3 3000 world_empty]
    by (simp add: b)
  show ?thesis
    by (simp add: c d) (simp add: world_empty_def)
qed

section \<open>Claims about the account age and the embed\<close>

lemma neg_div_bounds:
  fixes a b :: int
  assumes "0 < b"
  shows "(- ((- a) div b) - 1) * b < a \<and> a \<le> - ((- a) div b) * b"
proof -
  define q where "q = (- a) div b"
  define r where "r = (- a) mod b"
  have "q * b + r = - a"
    by (simp add: q_def r_def)
  moreover have "0 \<le> r" and "r < b"
    using assms by (simp_all add: r_def)
  ultimately have "(- q - 1) * b < a \<and> a \<le> - q * b"
    by (simp add: algebra_simps)
  then show ?thesis by (simp add: q_def)
qed

text \<open>
  C6. For a creation time and a current time, in milliseconds, the account age is the
  number of days \<open>d\<close> with \<open>(d - 1) * 86400000 < \<bar>now - created\<bar> \<le> d * 86400000\<close>,
  the ceiling of the difference in days and not its truncation; an account created
  before the current time has age at least 1.
\<close>

theorem calculateAccountAge_ceiling:
  "\<exists>days. calculateAccountAge now (Num created) = Num days
     \<and> (days - 1) * 86400000 < \<bar>now - created\<bar>
     \<and> \<bar>now - created\<bar> \<le> days * 86400000
     \<and> (created < now \<longrightarrow> 1 \<le> days)"
proof -
  let ?d = "\<bar>now - created\<bar>"
  let ?days = "\<lceil>real_of_int ?d / real_of_int (1000 * 60 * 60 * 24)\<rceil>"
  have day: "(1000 * 60 * 60 * 24 :: int) = 86400000"
    by simp
  have eq: "?days = - ((- ?d) div 86400000)"
    by (simp only: day ceiling_divide_eq_div)
  from neg_div_bounds [of 86400000 ?d]
  have low: "(?days - 1) * 86400000 < ?d" and up: "?d \<le> ?days * 86400000"
    unfolding eq by simp_all
  have pos: "1 \<le> ?days" if "created < now"
  proof (rule ccontr)
    assume "\<not> 1 \<le> ?days"
    then have "?days \<le> 0" by simp
    then have "?days * 86400000 \<le> 0" by (simp add: mult_le_0_iff)
    with up that show False by simp
  qed
  have "calculateAccountAge now (Num created) = Num ?days"
    by (simp only: calculateAccountAge.simps)
  with low up pos show ?thesis by blast
qed

theorem calculateAccountAge_ceiling_witness:
  "(0::int) < 1000 \<and> calculateAccountAge 1000 (Num 0) = Num 1
   \<and> calculateAccountAge 86400001 (Num 0) = Num 2"
proof -
  from calculateAccountAge_ceiling [of 1000 0] calculateAccountAge_ceiling [of 86400001 0]
  show ?thesis by simp
qed

lemma createResultsEmbed_title_too_long:
  "256 < length (''Background Check - '' @ username) \<Longrightarrow>
   createResultsEmbed username accountAge friendsCount groupsCount = Inl title_too_long"
  by (simp add: createResultsEmbed_def setTitle_def Let_def)

lemma createResultsEmbed_long_name:
  "createResultsEmbed (replicate 238 CHR ''a'') (Num 95) (Num 25) (Num 35) = Inl title_too_long"
  by (rule createResultsEmbed_title_too_long) simp

text \<open>
  C7. For every account age, friend count and group count, the verdict of each criterion
  is \<open>measured \<ge> minimum\<close> against the minimum of the code (90 days, 20 friends,
  30 groups), each field shows the number it was given, and the overall status is the
  conjunction of the three verdicts; at exactly 90, 20 and 30 all three verdicts and the
  overall status are true. The embed with these verdicts is returned for every name whose
  title fits into 256 characters, and the function throws for no other name.
\<close>

theorem createResultsEmbed_verdicts:
  "(case createResultsEmbed username (Num age) (Num friends) (Num groups) of
      Inl err \<Rightarrow> 256 < length (''Background Check - '' @ username)
    | Inr built \<Rightarrow>
        length (''Background Check - '' @ username) \<le> 256
        \<and> addFields built =
            [(''Account Age'', Criterion (90 \<le> age) (Num age) ''days'' 90),
             (''Friends'', Criterion (20 \<le> friends) (Num friends) ''friends'' 20),
             (''Groups'', Criterion (30 \<le> groups) (Num groups) ''groups'' 30),
             (''Overall Status'', Status (90 \<le> age \<and> 20 \<le> friends \<and> 30 \<le> groups))]
        \<and> overall_verdicts (addFields built) =
            [list_all (\<lambda>met. met) (criterion_verdicts (addFields built))])
   \<and> (case createResultsEmbed username (Num 90) (Num 20) (Num 30) of
        Inl err \<Rightarrow> 256 < length (''Background Check - '' @ username)
      | Inr built \<Rightarrow>
          criterion_verdicts (addFields built) = [True, True, True]
          \<and> overall_verdicts (addFields built) = [True])"
  by (simp add: createResultsEmbed_def setTitle_def Let_def)

theorem createResultsEmbed_verdicts_witness:
  "(\<exists>built. createResultsEmbed ''alice'' (Num 95) (Num 25) (Num 35) = Inr built
      \<and> criterion_verdicts (addFields built) = [True, True, True]
      \<and> overall_verdicts (addFields built) = [True])
   \<and> (\<exists>built. createResultsEmbed ''alice'' (Num 95) (Num 19) (Num 35) = Inr built
      \<and> criterion_verdicts (addFields built) = [True, False, True]
      \<and> overall_verdicts (addFields built) = [False])
   \<and> (\<exists>built. createResultsEmbed ''alice'' (Num 10) (Num 5) (Num 2) = Inr built
      \<and> criterion_verdicts (addFields built) = [False, False, False]
      \<and> overall_verdicts (addFields built) = [False])"
proof -
  have run: "\<exists>built. createResultsEmbed ''alice'' (Num age) (Num friends) (Num groups) = Inr built
      \<and> criterion_verdicts (addFields built) = [90 \<le> age, 20 \<le> friends, 30 \<le> groups]
      \<and> overall_verdicts (addFields built) = [90 \<le> age \<and> 20 \<le> friends \<and> 30 \<le> groups]"
    for age friends groups
    using createResultsEmbed_verdicts [of "''alice''" age friends groups]
    by (cases "createResultsEmbed ''alice'' (Num age) (Num friends) (Num groups)") simp_all
  from run [of 95 25 35] run [of 95 19 35] run [of 10 5 2] show ?thesis
    by simp
qed

text \<open>
  C5, as the code has it. A negative count is not rejected: the evaluator has no check of
  its numbers and no \<^verbatim>\<open>InvalidInputError\<close>. For a name whose title fits into 256
  characters and a negative friend count or a negative group count it returns the embed,
  which shows that number, with the verdict of its criterion false because the number is
  below the minimum, and with the overall status false.
\<close>

theorem createResultsEmbed_negative_counts:
  assumes "friends < 0 \<or> groups < 0"
    and "length (''Background Check - '' @ username) \<le> 256"
  shows "createResultsEmbed username age (Num friends) (Num groups) =
     Inr \<lparr> title = ''Background Check - '' @ username,
           color = 0xFF0000,
           addFields =
             [(''Account Age'', Criterion (js_ge age 90) age ''days'' 90),
              (''Friends'', Criterion (20 \<le> friends) (Num friends) ''friends'' 20),
              (''Groups'', Criterion (30 \<le> groups) (Num groups) ''groups'' 30),
              (''Overall Status'', Status False)],
           footer = ''Background Check System'' \<rparr>"
  using assms by (auto simp: createResultsEmbed_def setTitle_def Let_def)

theorem createResultsEmbed_negative_counts_witness:
  "((-1::int) < 0 \<or> (35::int) < 0)
   \<and> length (''Background Check - '' @ ''alice'') \<le> 256
   \<and> createResultsEmbed ''alice'' (Num 95) (Num (-1)) (Num 35) =
     Inr \<lparr> title = ''Background Check - alice'',
           color = 0xFF0000,
           addFields =
             [(''Account Age'', Criterion True (Num 95) ''days'' 90),
              (''Friends'', Criterion False (Num (-1)) ''friends'' 20),
              (''Groups'', Criterion True (Num 35) ''groups'' 30),
              (''Overall Status'', Status False)],
           footer = ''Background Check System'' \<rparr>"
proof -
  have negative: "(-1::int) < 0 \<or> (35::int) < 0" by simp
  have fits: "length (''Background Check - '' @ ''alice'') \<le> 256" by simp
  from negative fits createResultsEmbed_negative_counts [OF negative fits, of "Num 95"]
  show ?thesis by simp
qed

theorem createResultsEmbed_negative_counts_counterexample:
  "createResultsEmbed ''alice'' (Num 95) (Num (-1)) (Num (-2)) =
     Inr \<lparr> title = ''Background Check - alice'',
           color = 0xFF0000,
           addFields =
             [(''Account Age'', Criterion True (Num 95) ''days'' 90),
              (''Friends'', Criterion False (Num (-1)) ''friends'' 20),
              (''Groups'', Criterion False (Num (-2)) ''groups'' 30),
              (''Overall Status'', Status False)],
           footer = ''Background Check System'' \<rparr>"
  by (simp add: createResultsEmbed_def setTitle_def Let_def)

section \<open>The steps of getUserId\<close>

lemma not_found_not_rate_limited: "\<not> rate_limited (not_found_error username)"
  by (simp add: rate_limited_def not_found_error_def)

lemma getUserId_success:
  "post_answer e username (posts w username) = (latency, Inr (Some (first # others))) \<Longrightarrow>
   getUserId e username w = Some (Inr first, w\<lparr>trace := trace w @ [Post username latency]\<rparr>)"
  by (simp add: getUserId.simps getUserId_try_def axios_post_def)

lemma getUserId_rate_limited:
  "post_answer e username (posts w username) = (latency, Inl err) \<Longrightarrow> rate_limited err \<Longrightarrow>
   getUserId e username w = getUserId e username (w\<lparr>trace := trace w @ [Post username latency, Sleep 3000]\<rparr>)"
  by (simp add: getUserId.simps [of e username w] getUserId_try_def axios_post_def sleep_def)

lemma getUserId_failure:
  "post_answer e username (posts w username) = (latency, Inl err) \<Longrightarrow> \<not> rate_limited err \<Longrightarrow>
   getUserId e username w =
     Some (Inl (lookup_failed username err), w\<lparr>trace := trace w @ [Post username latency]\<rparr>)"
  by (simp add: getUserId.simps getUserId_try_def axios_post_def)

lemma getUserId_not_found:
  "post_answer e username (posts w username) = (latency, Inr found) \<Longrightarrow> found = None \<or> found = Some [] \<Longrightarrow>
   getUserId e username w =
     Some (Inl (lookup_failed username (not_found_error username)),
           w\<lparr>trace := trace w @ [Post username latency]\<rparr>)"
  by (auto simp: getUserId.simps getUserId_try_def axios_post_def not_found_not_rate_limited)

lemma getUserId_never_gives_up:
  assumes run: "getUserId e username w = Some result"
  shows "\<exists>k. \<not> rejects_429 (post_answer e username k)"
proof (rule getUserId.raw_induct
    [where P = "\<lambda>e username w result. \<exists>k. \<not> rejects_429 (post_answer e username k)", OF _ run])
  fix retry :: "env \<Rightarrow> string \<Rightarrow> world \<Rightarrow> ((js_error + int) \<times> world) option"
    and e username w result
  assume IH: "\<And>e username w y. retry e username w = Some y \<Longrightarrow>
                \<exists>k. \<not> rejects_429 (post_answer e username k)"
  assume body: "(case getUserId_try e username w of
      (Inl err, w1) \<Rightarrow>
        if rate_limited err then retry e username (sleep 3000 w1)
        else Some (Inl (lookup_failed username err), w1)
      | (Inr userId, w1) \<Rightarrow> Some (Inr userId, w1)) = Some result"
  obtain latency outcome where ans: "post_answer e username (posts w username) = (latency, outcome)"
    by (cases "post_answer e username (posts w username)")
  show "\<exists>k. \<not> rejects_429 (post_answer e username k)"
  proof (cases "rejects_429 (latency, outcome)")
    case False
    with ans show ?thesis by metis
  next
    case True
    then obtain err where "outcome = Inl err" "rate_limited err"
      by (cases outcome) auto
    with body ans have "retry e username (sleep 3000 (w\<lparr>trace := trace w @ [Post username latency]\<rparr>)) = Some result"
      by (simp add: getUserId_try_def axios_post_def)
    then show ?thesis by (rule IH)
  qed
qed

lemma getUserId_diverges:
  assumes "\<And>k. rejects_429 (post_answer e username k)"
  shows "getUserId e username w = None"
proof (cases "getUserId e username w")
  case None
  then show ?thesis .
next
  case (Some result)
  from getUserId_never_gives_up [OF this] assms show ?thesis by blast
qed

lemma getUserId_single_retry:
  assumes "post_answer e username (posts w username) = (l0, Inl err)" and "rate_limited err"
    and "post_answer e username (posts w username + 1) = (l1, Inr (Some (first # others)))"
  shows "getUserId e username w =
           Some (Inr first, w\<lparr>trace := trace w @ [Post username l0, Sleep 3000, Post username l1]\<rparr>)"
proof -
  let ?w1 = "w\<lparr>trace := trace w @ [Post username l0, Sleep 3000]\<rparr>"
  have "posts ?w1 username = posts w username + 1"
    by (simp add: posts_def)
  with assms(3) have "post_answer e username (posts ?w1 username) = (l1, Inr (Some (first # others)))"
    by simp
  from getUserId_success [OF this] getUserId_rate_limited [OF assms(1,2)]
  show ?thesis by simp
qed

section \<open>Claims about getUserId\<close>

text \<open>
  C1. The claim: a lookup that is rate limited once and then answered succeeds, and a lookup
  that is rate limited twice in a row fails. The code honours the first half
  (\<open>getUserId_single_retry\<close>) but not the second: the retry of line 74 is a call of
  \<^verbatim>\<open>getUserId\<close> itself, which retries again on the next 429. Rate limited twice and then
  answered, the lookup waits twice and returns the id after the third request; rate limited
  for ever, it never returns (\<open>getUserId_diverges\<close>).
\<close>

theorem getUserId_third_request:
  "getUserId env_twice_limited ''alice'' world_empty =
     Some (Inr 7,
           \<lparr> cache = Map.empty,
             trace = [Post ''alice'' 80, Sleep 3000, Post ''alice'' 80, Sleep 3000, Post ''alice'' 80] \<rparr>)"
  by (simp add: getUserId.simps getUserId_try_def axios_post_def posts_def sleep_def
      env_twice_limited_def too_many_requests_def rate_limited_def world_empty_def)

text \<open>
  C4, as the code has it. The error for an empty (or missing) result set is thrown inside
  the \<^verbatim>\<open>try\<close> block and caught by the function's own \<^verbatim>\<open>catch\<close>, so it reaches the
  caller through the same wrapper as every other failure that is not a rate limit:
  the error \<^verbatim>\<open>Failed to get user ID for "<name>": <cause>\<close>, whose cause is here
  \<^verbatim>\<open>User "<name>" not found\<close>. There is one lookup and no retry, and the handler
  replies with that message without any GET: no aggregation is attempted.
\<close>

theorem getUserId_wraps_every_failure:
  assumes answer: "post_answer e username (posts w username) = (latency, outcome)"
    and failure: "outcome = Inr None \<or> outcome = Inr (Some []) \<or> (\<exists>err. outcome = Inl err \<and> \<not> rate_limited err)"
  shows "getUserId e username w =
           Some (Inl (lookup_failed username
                        (case outcome of Inl err \<Rightarrow> err | Inr _ \<Rightarrow> not_found_error username)),
                 w\<lparr>trace := trace w @ [Post username latency]\<rparr>)
         \<and> interactionCreate e now (bgc username) w =
           Some (Some (TextReply (''Error: Failed to get user ID for '' @ [dquote] @ username @ [dquote] @ '': ''
                                  @ message (case outcome of Inl err \<Rightarrow> err | Inr _ \<Rightarrow> not_found_error username))),
                 w\<lparr>trace := trace w @ [Post username latency]\<rparr>)"
proof -
  let ?cause = "case outcome of Inl err \<Rightarrow> err | Inr _ \<Rightarrow> not_found_error username"
  have lookup: "getUserId e username w =
           Some (Inl (lookup_failed username ?cause), w\<lparr>trace := trace w @ [Post username latency]\<rparr>)"
  proof (cases outcome)
    case (Inl err)
    with failure have "\<not> rate_limited err" by simp
    with answer Inl show ?thesis by (simp add: getUserId_failure)
  next
    case (Inr found)
    with failure have "found = None \<or> found = Some []" by simp
    with answer Inr show ?thesis by (simp add: getUserId_not_found)
  qed
  then show ?thesis
    by (simp add: interactionCreate_def bgc_def lookup_failed_def)
qed

theorem getUserId_wraps_every_failure_witness:
  "post_answer env_no_user ''alice'' (posts world_empty ''alice'') = (80, Inr (Some []))
   \<and> getUserId env_no_user ''alice'' world_empty =
       Some (Inl (JsError None (''Failed to get user ID for '' @ [dquote] @ ''alice'' @ [dquote]
                                @ '': User '' @ [dquote] @ ''alice'' @ [dquote] @ '' not found'')),
             \<lparr> cache = Map.empty, trace = [Post ''alice'' 80] \<rparr>)
   \<and> interactionCreate env_no_user 0 (bgc ''alice'') world_empty =
       Some (Some (TextReply (''Error: Failed to get user ID for '' @ [dquote] @ ''alice'' @ [dquote]
                                @ '': User '' @ [dquote] @ ''alice'' @ [dquote] @ '' not found'')),
             \<lparr> cache = Map.empty, trace = [Post ''alice'' 80] \<rparr>)"
proof -
  have answer: "post_answer env_no_user ''alice'' (posts world_empty ''alice'') = (80, Inr (Some []))"
    by (simp add: env_no_user_def)
  have failure: "(Inr (Some []) :: js_error + lookup_body) = Inr None
      \<or> (Inr (Some []) :: js_error + lookup_body) = Inr (Some [])
      \<or> (\<exists>err. (Inr (Some []) :: js_error + lookup_body) = Inl err \<and> \<not> rate_limited err)"
    by simp
  from answer getUserId_wraps_every_failure [OF answer failure, of 0]
  show ?thesis
    by (simp add: lookup_failed_def not_found_error_def world_empty_def)
qed

theorem getUserId_not_found_counterexample:
  "getUserId env_no_user ''alice'' world_empty =
     Some (Inl (lookup_failed ''alice'' (not_found_error ''alice'')),
           \<lparr> cache = Map.empty, trace = [Post ''alice'' 80] \<rparr>)
   \<and> getUserId env_broken ''alice'' world_empty =
     Some (Inl (lookup_failed ''alice'' server_error),
           \<lparr> cache = Map.empty, trace = [Post ''alice'' 80] \<rparr>)
   \<and> getUserId env_no_user ''alice'' world_empty = getUserId env_echo ''alice'' world_empty"
  by (simp add: getUserId.simps getUserId_try_def axios_post_def posts_def
      env_no_user_def env_broken_def env_echo_def server_error_def not_found_error_def
      rate_limited_def world_empty_def)

section \<open>The steps of the handler\<close>

lemma show_int_7: "show_int 7 = ''7''"
  by (simp add: show_int_def show_nat.simps digit_def)

lemma getUserId_healthy:
  "getUserId (env_healthy\<lparr>get_answer := answers\<rparr>) ''alice'' world_empty =
     Some (Inr 7, \<lparr> cache = Map.empty, trace = [Post ''alice'' 80] \<rparr>)"
  by (simp add: getUserId.simps getUserId_try_def axios_post_def posts_def env_healthy_def world_empty_def)

lemma earliest_in: "earliest x xs \<in> set (x # xs)"
  by (induction xs arbitrary: x) auto

lemma earliest_least: "p \<in> set (x # xs) \<Longrightarrow> fst (earliest x xs) \<le> fst p"
proof (induction xs arbitrary: x p)
  case Nil
  then show ?case by simp
next
  case (Cons y ys)
  have step: "fst (earliest (if fst y < fst x then y else x) ys) \<le> fst q"
    if "q \<in> set ((if fst y < fst x then y else x) # ys)" for q
    using that by (rule Cons.IH)
  have low: "fst (earliest (if fst y < fst x then y else x) ys) \<le> fst (if fst y < fst x then y else x)"
    by (rule step) simp
  from Cons.prems consider "p = x" | "p = y" | "p \<in> set ys" by auto
  then show ?case
  proof cases
    case 1
    with low show ?thesis by (simp split: if_splits)
  next
    case 2
    with low show ?thesis by (simp split: if_splits)
  next
    case 3
    then show ?thesis using step [of p] by simp
  qed
qed

lemma promise_all_fulfilled:
  "promise_all (t1, Inr v1) (t2, Inr v2) (t3, Inr v3) = Inr (v1, v2, v3)"
  by (simp add: promise_all_def)

lemma promise_all_rejected:
  assumes "rejection t1 r1 @ rejection t2 r2 @ rejection t3 r3 \<noteq> []"
  shows "\<exists>t err. (t, err) \<in> set (rejection t1 r1 @ rejection t2 r2 @ rejection t3 r3)
           \<and> (\<forall>p \<in> set (rejection t1 r1 @ rejection t2 r2 @ rejection t3 r3). t \<le> fst p)
           \<and> promise_all (t1, r1) (t2, r2) (t3, r3) = Inl err"
proof -
  from assms obtain x xs where split: "rejection t1 r1 @ rejection t2 r2 @ rejection t3 r3 = x # xs"
    by (cases "rejection t1 r1 @ rejection t2 r2 @ rejection t3 r3") auto
  have "promise_all (t1, r1) (t2, r2) (t3, r3) = Inl (snd (earliest x xs))"
    by (simp add: promise_all_def split)
  moreover have "(fst (earliest x xs), snd (earliest x xs)) \<in> set (x # xs)"
    using earliest_in [of x xs] by simp
  moreover have "\<forall>p \<in> set (x # xs). fst (earliest x xs) \<le> fst p"
    using earliest_least by blast
  ultimately show ?thesis
    unfolding split by blast
qed

lemma rejection_empty: "rejection t r = [] \<Longrightarrow> \<exists>v. r = Inr v"
  by (cases r) simp_all

lemma interactionCreate_resolved:
  assumes "getUserId e username w = Some (Inr userId, w0)"
    and "getUserDetails e userId w0 = (r1, w1)"
    and "getFriendsCount e userId w1 = (r2, w2)"
    and "getGroupsCount e userId w2 = (r3, w3)"
  shows "interactionCreate e now (bgc username) w =
     (case promise_all (took w0 w1, r1) (took w1 w2, r2) (took w2 w3, r3) of
        Inl err \<Rightarrow> Some (Some (TextReply (''Error: '' @ message err)), w3)
      | Inr (userDetails, friendsCount, groupsCount) \<Rightarrow>
          Some (Some (case createResultsEmbed (details_name userDetails)
                             (calculateAccountAge now (details_created userDetails))
                             (Num friendsCount) (Num groupsCount) of
                        Inl err \<Rightarrow> TextReply (''Error: '' @ message err)
                      | Inr built \<Rightarrow> EmbedReply built), w3))"
  by (simp add: interactionCreate_def bgc_def aggregate_def assms Let_def split: sum.splits prod.splits)

lemma interactionCreate_reply_forms:
  assumes run: "interactionCreate e now (bgc username) w = Some (r, w')"
  shows "(\<exists>text. r = Some (TextReply (''Error: '' @ text)))
       \<or> (\<exists>userId w0 w1 w2 userDetails friendsCount groupsCount built.
             getUserId e username w = Some (Inr userId, w0)
             \<and> getUserDetails e userId w0 = (Inr userDetails, w1)
             \<and> getFriendsCount e userId w1 = (Inr friendsCount, w2)
             \<and> getGroupsCount e userId w2 = (Inr groupsCount, w')
             \<and> createResultsEmbed (details_name userDetails)
                   (calculateAccountAge now (details_created userDetails))
                   (Num friendsCount) (Num groupsCount) = Inr built
             \<and> r = Some (EmbedReply built))"
proof (cases "getUserId e username w")
  case None
  with run show ?thesis by (simp add: interactionCreate_def bgc_def)
next
  case (Some looked)
  obtain res w0 where looked: "looked = (res, w0)" by (cases looked)
  show ?thesis
  proof (cases res)
    case (Inl err)
    with run Some looked show ?thesis by (auto simp: interactionCreate_def bgc_def)
  next
    case (Inr userId)
    obtain r1 w1 where d: "getUserDetails e userId w0 = (r1, w1)" by (cases "getUserDetails e userId w0")
    obtain r2 w2 where f: "getFriendsCount e userId w1 = (r2, w2)" by (cases "getFriendsCount e userId w1")
    obtain r3 w3 where g: "getGroupsCount e userId w2 = (r3, w3)" by (cases "getGroupsCount e userId w2")
    have resolved: "getUserId e username w = Some (Inr userId, w0)"
      using Some looked Inr by simp
    note eq = interactionCreate_resolved [OF resolved d f g, of now]
    show ?thesis
    proof (cases "rejection (took w0 w1) r1 @ rejection (took w1 w2) r2 @ rejection (took w2 w3) r3 = []")
      case True
      then have "rejection (took w0 w1) r1 = []" "rejection (took w1 w2) r2 = []"
          "rejection (took w2 w3) r3 = []"
        by simp_all
      then obtain v1 v2 v3 where vs: "r1 = Inr v1" "r2 = Inr v2" "r3 = Inr v3"
        using rejection_empty [of "took w0 w1" r1] rejection_empty [of "took w1 w2" r2]
          rejection_empty [of "took w2 w3" r3]
        by blast
      show ?thesis
      proof (cases "createResultsEmbed (details_name v1)
                      (calculateAccountAge now (details_created v1)) (Num v2) (Num v3)")
        case (Inl err)
        with run eq vs have "r = Some (TextReply (''Error: '' @ message err))"
          by (simp add: promise_all_fulfilled)
        then show ?thesis by blast
      next
        case built: (Inr built)
        with run eq vs have "r = Some (EmbedReply built)" and "w' = w3"
          by (simp_all add: promise_all_fulfilled)
        with resolved d f g vs built show ?thesis by blast
      qed
    next
      case False
      from promise_all_rejected [OF False] obtain err where
        "promise_all (took w0 w1, r1) (took w1 w2, r2) (took w2 w3, r3) = Inl err"
        by blast
      with run eq show ?thesis by auto
    qed
  qed
qed

section \<open>Claims about the handler\<close>

text \<open>
  C8. Once the user id is resolved, the handler's reply is all or nothing. When the three
  calls (details, friend count, group count) all succeed, the reply is the embed built
  from the three values, whole as \<^verbatim>\<open>createResultsEmbed\<close> returns it, or the single text
  \<^verbatim>\<open>Error: <message>\<close> when building it throws. When at least one of the calls fails,
  the reply is the single text \<^verbatim>\<open>Error: <message>\<close> of a failed call, the one that
  failed earliest, and no embed is produced, whatever the other calls returned. Whenever
  the handler replies to the command at all, its reply has one of these two forms
  (\<open>interactionCreate_reply_forms\<close>).
\<close>

theorem interactionCreate_all_or_nothing:
  assumes resolved: "getUserId e username w = Some (Inr userId, w0)"
    and details: "getUserDetails e userId w0 = (r1, w1)"
    and friends: "getFriendsCount e userId w1 = (r2, w2)"
    and groups: "getGroupsCount e userId w2 = (r3, w3)"
  shows "(\<forall>userDetails friendsCount groupsCount.
            r1 = Inr userDetails \<and> r2 = Inr friendsCount \<and> r3 = Inr groupsCount \<longrightarrow>
            interactionCreate e now (bgc username) w =
              Some (Some (case createResultsEmbed (details_name userDetails)
                                 (calculateAccountAge now (details_created userDetails))
                                 (Num friendsCount) (Num groupsCount) of
                            Inl err \<Rightarrow> TextReply (''Error: '' @ message err)
                          | Inr built \<Rightarrow> EmbedReply built), w3))
       \<and> (rejection (took w0 w1) r1 @ rejection (took w1 w2) r2 @ rejection (took w2 w3) r3 \<noteq> [] \<longrightarrow>
            (\<exists>t err.
               (t, err) \<in> set (rejection (took w0 w1) r1 @ rejection (took w1 w2) r2 @ rejection (took w2 w3) r3)
               \<and> (\<forall>p \<in> set (rejection (took w0 w1) r1 @ rejection (took w1 w2) r2 @ rejection (took w2 w3) r3).
                     t \<le> fst p)
               \<and> interactionCreate e now (bgc username) w =
                   Some (Some (TextReply (''Error: '' @ message err)), w3)))"
proof -
  note run = interactionCreate_resolved [OF resolved details friends groups, of now]
  have fulfilled: "interactionCreate e now (bgc username) w =
              Some (Some (case createResultsEmbed (details_name userDetails)
                                 (calculateAccountAge now (details_created userDetails))
                                 (Num friendsCount) (Num groupsCount) of
                            Inl err \<Rightarrow> TextReply (''Error: '' @ message err)
                          | Inr built \<Rightarrow> EmbedReply built), w3)"
    if "r1 = Inr userDetails" "r2 = Inr friendsCount" "r3 = Inr groupsCount"
    for userDetails friendsCount groupsCount
    unfolding run that by (simp add: promise_all_fulfilled)
  have rejected: "\<exists>t err.
               (t, err) \<in> set (rejection (took w0 w1) r1 @ rejection (took w1 w2) r2 @ rejection (took w2 w3) r3)
               \<and> (\<forall>p \<in> set (rejection (took w0 w1) r1 @ rejection (took w1 w2) r2 @ rejection (took w2 w3) r3).
                     t \<le> fst p)
               \<and> interactionCreate e now (bgc username) w =
                   Some (Some (TextReply (''Error: '' @ message err)), w3)"
    if "rejection (took w0 w1) r1 @ rejection (took w1 w2) r2 @ rejection (took w2 w3) r3 \<noteq> []"
  proof -
    from promise_all_rejected [OF that] obtain t err where
      "(t, err) \<in> set (rejection (took w0 w1) r1 @ rejection (took w1 w2) r2 @ rejection (took w2 w3) r3)"
      "\<forall>p \<in> set (rejection (took w0 w1) r1 @ rejection (took w1 w2) r2 @ rejection (took w2 w3) r3). t \<le> fst p"
      "promise_all (took w0 w1, r1) (took w1 w2, r2) (took w2 w3, r3) = Inl err"
      by blast
    then show ?thesis unfolding run by auto
  qed
  show ?thesis
  proof (intro conjI allI impI)
    fix userDetails friendsCount groupsCount
    assume "r1 = Inr userDetails \<and> r2 = Inr friendsCount \<and> r3 = Inr groupsCount"
    then show "interactionCreate e now (bgc username) w =
              Some (Some (case createResultsEmbed (details_name userDetails)
                                 (calculateAccountAge now (details_created userDetails))
                                 (Num friendsCount) (Num groupsCount) of
                            Inl err \<Rightarrow> TextReply (''Error: '' @ message err)
                          | Inr built \<Rightarrow> EmbedReply built), w3)"
      by (simp add: fulfilled)
  next
    assume some: "rejection (took w0 w1) r1 @ rejection (took w1 w2) r2 @ rejection (took w2 w3) r3 \<noteq> []"
    show "\<exists>t err.
               (t, err) \<in> set (rejection (took w0 w1) r1 @ rejection (took w1 w2) r2 @ rejection (took w2 w3) r3)
               \<and> (\<forall>p \<in> set (rejection (took w0 w1) r1 @ rejection (took w1 w2) r2 @ rejection (took w2 w3) r3).
                     t \<le> fst p)
               \<and> interactionCreate e now (bgc username) w =
                   Some (Some (TextReply (''Error: '' @ message err)), w3)"
      by (rule rejected [OF some])
  qed
qed

theorem interactionCreate_all_or_nothing_witness:
  "interactionCreate env_friends_down 1608208000000 (bgc ''alice'') world_empty =
     Some (Some (TextReply ''Error: Request failed with status code 500''),
           \<lparr> cache = [''https://users.roblox.com/v1/users/7'' \<mapsto> alice_details,
                      ''https://groups.roblox.com/v1/users/7/groups/roles'' \<mapsto> ListBody [1 .. 35]],
             trace = [Post ''alice'' 80,
                      Get ''https://users.roblox.com/v1/users/7'' 100,
                      Get ''https://friends.roblox.com/v1/users/7/friends'' 150,
                      Get ''https://groups.roblox.com/v1/users/7/groups/roles'' 200] \<rparr>)
   \<and> interactionCreate env_healthy 1608208000000 (bgc ''alice'') world_empty =
     Some (Some (EmbedReply
             \<lparr> title = ''Background Check - alice'',
               color = 0x00FF00,
               addFields =
                 [(''Account Age'', Criterion True (Num 95) ''days'' 90),
                  (''Friends'', Criterion True (Num 25) ''friends'' 20),
                  (''Groups'', Criterion True (Num 35) ''groups'' 30),
                  (''Overall Status'', Status True)],
               footer = ''Background Check System'' \<rparr>),
           \<lparr> cache = [''https://users.roblox.com/v1/users/7'' \<mapsto> alice_details,
                      ''https://friends.roblox.com/v1/users/7/friends'' \<mapsto> ListBody [1 .. 25],
                      ''https://groups.roblox.com/v1/users/7/groups/roles'' \<mapsto> ListBody [1 .. 35]],
             trace = [Post ''alice'' 80,
                      Get ''https://users.roblox.com/v1/users/7'' 100,
                      Get ''https://friends.roblox.com/v1/users/7/friends'' 150,
                      Get ''https://groups.roblox.com/v1/users/7/groups/roles'' 200] \<rparr>)"
proof -
  let ?w0 = "\<lparr> cache = Map.empty, trace = [Post ''alice'' 80] \<rparr>"
  let ?w1 = "\<lparr> cache = [''https://users.roblox.com/v1/users/7'' \<mapsto> alice_details],
               trace = [Post ''alice'' 80, Get ''https://users.roblox.com/v1/users/7'' 100] \<rparr>"
  let ?w2 = "\<lparr> cache = [''https://users.roblox.com/v1/users/7'' \<mapsto> alice_details],
               trace = [Post ''alice'' 80, Get ''https://users.roblox.com/v1/users/7'' 100,
                        Get ''https://friends.roblox.com/v1/users/7/friends'' 150] \<rparr>"
  let ?w3 = "\<lparr> cache = [''https://users.roblox.com/v1/users/7'' \<mapsto> alice_details,
                        ''https://groups.roblox.com/v1/users/7/groups/roles'' \<mapsto> ListBody [1 .. 35]],
               trace = [Post ''alice'' 80, Get ''https://users.roblox.com/v1/users/7'' 100,
                        Get ''https://friends.roblox.com/v1/users/7/friends'' 150,
                        Get ''https://groups.roblox.com/v1/users/7/groups/roles'' 200] \<rparr>"
  let ?v2 = "\<lparr> cache = [''https://users.roblox.com/v1/users/7'' \<mapsto> alice_details,
                        ''https://friends.roblox.com/v1/users/7/friends'' \<mapsto> ListBody [1 .. 25]],
               trace = [Post ''alice'' 80, Get ''https://users.roblox.com/v1/users/7'' 100,
                        Get ''https://friends.roblox.com/v1/users/7/friends'' 150] \<rparr>"
  let ?v3 = "\<lparr> cache = [''https://users.roblox.com/v1/users/7'' \<mapsto> alice_details,
                        ''https://friends.roblox.com/v1/users/7/friends'' \<mapsto> ListBody [1 .. 25],
                        ''https://groups.roblox.com/v1/users/7/groups/roles'' \<mapsto> ListBody [1 .. 35]],
               trace = [Post ''alice'' 80, Get ''https://users.roblox.com/v1/users/7'' 100,
                        Get ''https://friends.roblox.com/v1/users/7/friends'' 150,
                        Get ''https://groups.roblox.com/v1/users/7/groups/roles'' 200] \<rparr>"
  have resolved: "getUserId env_friends_down ''alice'' world_empty = Some (Inr 7, ?w0)"
    unfolding env_friends_down_def by (rule getUserId_healthy)
  have details: "getUserDetails env_friends_down 7 ?w0 = (Inr alice_details, ?w1)"
    by (simp add: getUserDetails_def show_int_7 safeAxiosGet_def default_retries_def default_delay_def
        safeAxiosGet_loop.simps axios_get_def gets_def env_friends_down_def env_healthy_def)
  have friends: "getFriendsCount env_friends_down 7 ?w1 = (Inl server_error, ?w2)"
    by (simp add: getFriendsCount_def show_int_7 safeAxiosGet_def default_retries_def default_delay_def
        safeAxiosGet_loop.simps axios_get_def gets_def env_friends_down_def env_healthy_def
        server_error_def rate_limited_def)
  have groups: "getGroupsCount env_friends_down 7 ?w2 = (Inr 35, ?w3)"
    by (simp add: getGroupsCount_def show_int_7 safeAxiosGet_def default_retries_def default_delay_def
        safeAxiosGet_loop.simps axios_get_def gets_def env_friends_down_def env_healthy_def
        data_length_def)
  have down: "interactionCreate env_friends_down 1608208000000 (bgc ''alice'') world_empty =
     Some (Some (TextReply ''Error: Request failed with status code 500''), ?w3)"
    using interactionCreate_all_or_nothing [OF resolved details friends groups, of 1608208000000]
    by (simp add: server_error_def)
  have resolved': "getUserId env_healthy ''alice'' world_empty = Some (Inr 7, ?w0)"
    using getUserId_healthy [of "get_answer env_healthy"] by simp
  have details': "getUserDetails env_healthy 7 ?w0 = (Inr alice_details, ?w1)"
    by (simp add: getUserDetails_def show_int_7 safeAxiosGet_def default_retries_def default_delay_def
        safeAxiosGet_loop.simps axios_get_def gets_def env_healthy_def)
  have friends': "getFriendsCount env_healthy 7 ?w1 = (Inr 25, ?v2)"
    by (simp add: getFriendsCount_def show_int_7 safeAxiosGet_def default_retries_def default_delay_def
        safeAxiosGet_loop.simps axios_get_def gets_def env_healthy_def data_length_def)
  have groups': "getGroupsCount env_healthy 7 ?v2 = (Inr 35, ?v3)"
    by (simp add: getGroupsCount_def show_int_7 safeAxiosGet_def default_retries_def default_delay_def
        safeAxiosGet_loop.simps axios_get_def gets_def env_healthy_def data_length_def)
  have up: "interactionCreate env_healthy 1608208000000 (bgc ''alice'') world_empty =
     Some (Some (case createResultsEmbed ''alice''
                        (calculateAccountAge 1608208000000 (Num 1600000000000)) (Num 25) (Num 35) of
                   Inl err \<Rightarrow> TextReply (''Error: '' @ message err)
                 | Inr built \<Rightarrow> EmbedReply built), ?v3)"
    using interactionCreate_all_or_nothing [OF resolved' details' friends' groups', of 1608208000000]
    by (simp add: alice_details_def)
  from down up show ?thesis
    by (simp add: createResultsEmbed_def setTitle_def Let_def)
qed

end
